theory Spec2Isabelle
  imports Main
begin

section \<open>ReactiveEntityManager: data model\<close>

text \<open>
  The development embeds \<^verbatim>\<open>src/entity-manager/ReactiveEntityManager.ts\<close>.
  The class keeps no fields of its own: it reads \<^verbatim>\<open>connection\<close>,
  \<^verbatim>\<open>useSingleDatabaseConnection\<close>, \<^verbatim>\<open>queryRunnerProvider\<close> and
  \<^verbatim>\<open>isReleased\<close> from its base class and never assigns any of them.

  Errors are values. \<open>EntityManagerAlreadyReleasedError\<close> is the one error the class
  constructs itself, \<open>TypeError\<close> is what the JavaScript runtime raises on a property
  read of \<^verbatim>\<open>undefined\<close>, and \<open>Thrown e\<close> is any error \<open>e\<close> raised by a
  collaborator (provider, runner, repository, unit of work).
\<close>

datatype 'e error = EntityManagerAlreadyReleasedError | TypeError | Thrown 'e

text \<open>
  The mutable JavaScript heap, as far as the class sees it: the manager's fields (field
  \<open>connection_driver\<close> stands for \<^verbatim>\<open>this.connection.driver\<close>; a provider object is
  named by its address, a natural number) and the rest of the world \<open>world\<close>, which only
  the collaborators read and write. Collaborators receive the whole heap, so a provider,
  a runner or a unit of work may flip \<open>isReleased\<close> while an operation is suspended.
\<close>

record ('d, 'w) heap =
  connection_driver :: 'd
  useSingleDatabaseConnection :: bool
  queryRunnerProvider :: "nat option"
  isReleased :: bool
  world :: 'w

text \<open>
  The calls the class makes on its collaborators, in the order it makes them. The
  operations a unit of work performs on its own are opaque to the class and are recorded
  as \<open>UnitOfWorkOp\<close>.
\<close>

datatype ('d, 'r, 'o) event =
    NewQueryRunnerProvider nat 'd
  | Provide nat
  | RunQuery 'r string
  | BeginTransaction 'r
  | CommitTransaction 'r
  | RollbackTransaction 'r
  | Release nat 'r
  | UnitOfWorkOp 'o

text \<open>
  A run state: the heap, the trace of calls made so far, and the number of provider
  objects allocated so far (\<^verbatim>\<open>new\<close> returns the next unused address). Collaborators
  are functions on the heap alone: they can neither rewrite the trace nor the allocator.
\<close>

record ('d, 'w, 'r, 'o) run =
  heap :: "('d, 'w) heap"
  trace :: "('d, 'r, 'o) event list"
  allocated :: nat

text \<open>
  \<^verbatim>\<open>QueryRunnerProvider\<close> and the query runner are not part of this file; their
  behaviour is a parameter. Each operation maps the heap to an outcome (\<open>Inl\<close> a
  rejection, \<open>Inr\<close> a resolution) and a new heap.
\<close>

record ('d, 'w, 'r, 'e, 'v) env =
  provide_impl :: "nat \<Rightarrow> ('d, 'w) heap \<Rightarrow> ('e error + 'r) \<times> ('d, 'w) heap"
  release_impl :: "nat \<Rightarrow> 'r \<Rightarrow> ('d, 'w) heap \<Rightarrow> ('e error + unit) \<times> ('d, 'w) heap"
  query_impl :: "'r \<Rightarrow> string \<Rightarrow> ('d, 'w) heap \<Rightarrow> ('e error + 'v) \<times> ('d, 'w) heap"
  beginTransaction_impl :: "'r \<Rightarrow> ('d, 'w) heap \<Rightarrow> ('e error + unit) \<times> ('d, 'w) heap"
  commitTransaction_impl :: "'r \<Rightarrow> ('d, 'w) heap \<Rightarrow> ('e error + unit) \<times> ('d, 'w) heap"
  rollbackTransaction_impl :: "'r \<Rightarrow> ('d, 'w) heap \<Rightarrow> ('e error + unit) \<times> ('d, 'w) heap"

section \<open>Asynchronous functions as state-passing computations with errors\<close>

type_synonym ('a, 'e, 's) async = "'s \<Rightarrow> ('e error + 'a) \<times> 's"

definition resolve :: "'a \<Rightarrow> ('a, 'e, 's) async" where
  "resolve v = (\<lambda>s. (Inr v, s))"

definition reject :: "'e error \<Rightarrow> ('a, 'e, 's) async" where
  "reject e = (\<lambda>s. (Inl e, s))"

text \<open>\<^verbatim>\<open>const x = await m; f(x)\<close>: a rejection of \<open>m\<close> leaves the block.\<close>

definition await :: "('a, 'e, 's) async \<Rightarrow> ('a \<Rightarrow> ('b, 'e, 's) async) \<Rightarrow> ('b, 'e, 's) async" where
  "await m f = (\<lambda>s. case m s of (Inl e, s') \<Rightarrow> (Inl e, s') | (Inr v, s') \<Rightarrow> f v s')"

text \<open>\<^verbatim>\<open>try { m } catch (err) { h(err) }\<close>.\<close>

definition try_catch :: "('a, 'e, 's) async \<Rightarrow> ('e error \<Rightarrow> ('a, 'e, 's) async) \<Rightarrow> ('a, 'e, 's) async" where
  "try_catch m h = (\<lambda>s. case m s of (Inl e, s') \<Rightarrow> h e s' | (Inr v, s') \<Rightarrow> (Inr v, s'))"

text \<open>
  \<^verbatim>\<open>try { m } finally { fin }\<close>: \<open>fin\<close> runs on every exit of \<open>m\<close>; when \<open>fin\<close>
  completes normally the outcome of \<open>m\<close> stands, when \<open>fin\<close> throws its error replaces
  that outcome.
\<close>

definition try_finally :: "('a, 'e, 's) async \<Rightarrow> (unit, 'e, 's) async \<Rightarrow> ('a, 'e, 's) async" where
  "try_finally m fin =
     (\<lambda>s. case m s of (r, s') \<Rightarrow>
        (case fin s' of (Inl e, s'') \<Rightarrow> (Inl e, s'') | (Inr u, s'') \<Rightarrow> (r, s'')))"

text \<open>A call on a collaborator: it transforms the heap, and the call is recorded.\<close>

definition call ::
  "('d, 'r, 'o) event \<Rightarrow> (('d, 'w) heap \<Rightarrow> ('e error + 'a) \<times> ('d, 'w) heap)
     \<Rightarrow> ('a, 'e, ('d, 'w, 'r, 'o) run) async" where
  "call ev f = (\<lambda>s. case f (heap s) of (r, h') \<Rightarrow> (r, s\<lparr>heap := h', trace := trace s @ [ev]\<rparr>))"

definition provide :: "('d, 'w, 'r, 'e, 'v) env \<Rightarrow> nat \<Rightarrow> ('r, 'e, ('d, 'w, 'r, 'o) run) async" where
  "provide env p = call (Provide p) (provide_impl env p)"

definition release :: "('d, 'w, 'r, 'e, 'v) env \<Rightarrow> nat \<Rightarrow> 'r \<Rightarrow> (unit, 'e, ('d, 'w, 'r, 'o) run) async" where
  "release env p r = call (Release p r) (release_impl env p r)"

definition runner_query :: "('d, 'w, 'r, 'e, 'v) env \<Rightarrow> 'r \<Rightarrow> string \<Rightarrow> ('v, 'e, ('d, 'w, 'r, 'o) run) async" where
  "runner_query env r q = call (RunQuery r q) (query_impl env r q)"

definition beginTransaction :: "('d, 'w, 'r, 'e, 'v) env \<Rightarrow> 'r \<Rightarrow> (unit, 'e, ('d, 'w, 'r, 'o) run) async" where
  "beginTransaction env r = call (BeginTransaction r) (beginTransaction_impl env r)"

definition commitTransaction :: "('d, 'w, 'r, 'e, 'v) env \<Rightarrow> 'r \<Rightarrow> (unit, 'e, ('d, 'w, 'r, 'o) run) async" where
  "commitTransaction env r = call (CommitTransaction r) (commitTransaction_impl env r)"

definition rollbackTransaction :: "('d, 'w, 'r, 'e, 'v) env \<Rightarrow> 'r \<Rightarrow> (unit, 'e, ('d, 'w, 'r, 'o) run) async" where
  "rollbackTransaction env r = call (RollbackTransaction r) (rollbackTransaction_impl env r)"

text \<open>
  The caller's unit of work \<^verbatim>\<open>runInTransaction\<close>: from the heap it yields its outcome,
  the operations it performed, and the new heap.
\<close>

type_synonym ('d, 'w, 'e, 'v, 'o) unit_of_work =
  "('d, 'w) heap \<Rightarrow> (('e error + 'v) \<times> 'o list) \<times> ('d, 'w) heap"

definition call_runInTransaction ::
  "('d, 'w, 'e, 'v, 'o) unit_of_work \<Rightarrow> ('v, 'e, ('d, 'w, 'r, 'o) run) async" where
  "call_runInTransaction fn =
     (\<lambda>s. case fn (heap s) of ((r, ops), h') \<Rightarrow>
        (r, s\<lparr>heap := h', trace := trace s @ map UnitOfWorkOp ops\<rparr>))"

section \<open>query and transaction\<close>

text \<open>
  \<^verbatim>\<open>this.queryRunnerProvider || new QueryRunnerProvider(this.connection.driver)\<close>:
  the manager's provider when the field is set, a newly allocated provider otherwise.
  The new provider is not stored in the field.
\<close>

definition obtainQueryRunnerProvider :: "('d, 'w, 'r, 'o) run \<Rightarrow> nat \<times> ('d, 'w, 'r, 'o) run" where
  "obtainQueryRunnerProvider s =
     (case queryRunnerProvider (heap s) of
        Some p \<Rightarrow> (p, s)
      | None \<Rightarrow>
          (allocated s,
           s\<lparr>trace := trace s @ [NewQueryRunnerProvider (allocated s) (connection_driver (heap s))],
             allocated := Suc (allocated s)\<rparr>))"

text \<open>The asynchronous thunk \<^verbatim>\<open>promiseFn\<close> of \<^verbatim>\<open>query\<close>.\<close>

definition query_promiseFn ::
  "('d, 'w, 'r, 'e, 'v) env \<Rightarrow> string \<Rightarrow> ('v, 'e, ('d, 'w, 'r, 'o) run) async" where
  "query_promiseFn env q =
     (\<lambda>s. if useSingleDatabaseConnection (heap s) \<and> isReleased (heap s)
          then reject EntityManagerAlreadyReleasedError s
          else (case obtainQueryRunnerProvider s of (p, s0) \<Rightarrow>
                  await (provide env p)
                    (\<lambda>r. try_finally
                           (await (runner_query env r q) resolve)
                           (release env p r)) s0))"

text \<open>The asynchronous thunk \<^verbatim>\<open>promiseFn\<close> of \<^verbatim>\<open>transaction\<close>.\<close>

definition transaction_promiseFn ::
  "('d, 'w, 'r, 'e, 'v) env \<Rightarrow> ('d, 'w, 'e, 'v, 'o) unit_of_work
     \<Rightarrow> ('v, 'e, ('d, 'w, 'r, 'o) run) async" where
  "transaction_promiseFn env runInTransaction =
     (\<lambda>s. if useSingleDatabaseConnection (heap s) \<and> isReleased (heap s)
          then reject EntityManagerAlreadyReleasedError s
          else (case obtainQueryRunnerProvider s of (p, s0) \<Rightarrow>
                  await (provide env p)
                    (\<lambda>r. try_finally
                           (try_catch
                              (await (beginTransaction env r)
                                 (\<lambda>_. await (call_runInTransaction runInTransaction)
                                    (\<lambda>result. await (commitTransaction env r)
                                       (\<lambda>_. resolve result))))
                              (\<lambda>err. await (rollbackTransaction env r) (\<lambda>_. reject err)))
                           (release env p r)) s0))"

section \<open>The promise-to-stream bridge\<close>

text \<open>
  \<^verbatim>\<open>Rx.Observable.fromPromise\<close> and the subscription of an observable are library
  code outside this file; they are modelled after the specification's task bridge. What a
  subscriber receives is a list of notifications.
\<close>

datatype ('e, 'v) notification = OnNext 'v | OnCompleted | OnError "'e error"

datatype ('v, 'e, 's) observable = Observable (thunk: "('v, 'e, 's) async")

text \<open>
  Modelled from the spec: \<^verbatim>\<open>Rx.Observable.fromPromise\<close> is missing. The task bridge
  wraps an asynchronous thunk as a cold stream: building the stream runs nothing, it only
  keeps the thunk.
\<close>

definition fromPromise :: "('v, 'e, 's) async \<Rightarrow> ('v, 'e, 's) observable" where
  "fromPromise promiseFn = Observable promiseFn"

text \<open>
  Modelled from the spec: the delivery of a promise's outcome to a subscriber is missing.
  The stream emits at most one value followed by completion, or a single failure event.
\<close>

definition settle :: "'e error + 'v \<Rightarrow> ('e, 'v) notification list" where
  "settle outcome = (case outcome of Inr v \<Rightarrow> [OnNext v, OnCompleted] | Inl e \<Rightarrow> [OnError e])"

text \<open>
  Modelled from the spec: \<^verbatim>\<open>subscribe\<close> on the observable is missing. Each activation
  invokes the thunk anew on the current state and delivers that invocation's outcome;
  nothing is cached or shared between activations.
\<close>

definition subscribe :: "('v, 'e, 's) observable \<Rightarrow> 's \<Rightarrow> ('e, 'v) notification list \<times> 's" where
  "subscribe ob s = (case thunk ob s of (outcome, s') \<Rightarrow> (settle outcome, s'))"

text \<open>
  \<^verbatim>\<open>query\<close> and \<^verbatim>\<open>transaction\<close> build their thunk and return
  \<^verbatim>\<open>Rx.Observable.fromPromise(promiseFn)\<close>.
\<close>

definition query ::
  "('d, 'w, 'r, 'e, 'v) env \<Rightarrow> string \<Rightarrow> ('v, 'e, ('d, 'w, 'r, 'o) run) observable" where
  "query env q = fromPromise (query_promiseFn env q)"

definition transaction ::
  "('d, 'w, 'r, 'e, 'v) env \<Rightarrow> ('d, 'w, 'e, 'v, 'o) unit_of_work
     \<Rightarrow> ('v, 'e, ('d, 'w, 'r, 'o) run) observable" where
  "transaction env runInTransaction = fromPromise (transaction_promiseFn env runInTransaction)"

section \<open>Entity dispatch\<close>

text \<open>
  A JavaScript value is \<^verbatim>\<open>undefined\<close> (also the value of a parameter for which no
  argument was passed), \<^verbatim>\<open>null\<close>, or any other value, which is opaque (\<open>'x\<close>).
\<close>

datatype 'x jsvalue = Undefined | Null | Val 'x

text \<open>
  The repository resolver \<^verbatim>\<open>getReactiveRepository\<close> of the base class and the
  repositories are parameters: a repository maps the argument list it is called with to the stream it returns (\<open>'s\<close>),
  and the resolver may throw.
\<close>

record ('x, 's) repository =
  repo_persist :: "'x jsvalue \<Rightarrow> 's"
  repo_remove :: "'x jsvalue \<Rightarrow> 's"
  repo_find :: "'x jsvalue list \<Rightarrow> 's"
  repo_findAndCount :: "'x jsvalue list \<Rightarrow> 's"
  repo_findOne :: "'x jsvalue list \<Rightarrow> 's"
  repo_findOneById :: "'x jsvalue \<Rightarrow> 'x jsvalue \<Rightarrow> 's"

type_synonym ('x, 's, 'e) resolver = "'x jsvalue \<Rightarrow> 'e error + ('x, 's) repository"

text \<open>The \<open>i\<close>-th formal parameter of a call: \<^verbatim>\<open>undefined\<close> beyond the arguments passed.\<close>

definition parameter :: "'x jsvalue list \<Rightarrow> nat \<Rightarrow> 'x jsvalue" where
  "parameter arguments i = (if i < length arguments then arguments ! i else Undefined)"

text \<open>
  \<^verbatim>\<open>v.constructor\<close>: a \<open>TypeError\<close> on \<^verbatim>\<open>undefined\<close> and on \<^verbatim>\<open>null\<close>,
  otherwise whatever the property holds (\<open>constructor_of\<close>, the runtime type of the value).
\<close>

definition get_constructor :: "('x \<Rightarrow> 'x jsvalue) \<Rightarrow> 'x jsvalue \<Rightarrow> 'e error + 'x jsvalue" where
  "get_constructor constructor_of v =
     (case v of
        Undefined \<Rightarrow> Inl TypeError
      | Null \<Rightarrow> Inl TypeError
      | Val x \<Rightarrow> Inr (constructor_of x))"

text \<open>\<^verbatim>\<open>this.getReactiveRepository(target).m(...)\<close>: an error of the resolver propagates.\<close>

definition on_repository ::
  "('x, 's, 'e) resolver \<Rightarrow> 'x jsvalue \<Rightarrow> (('x, 's) repository \<Rightarrow> 's) \<Rightarrow> 'e error + 's" where
  "on_repository getReactiveRepository target m =
     (case getReactiveRepository target of Inl e \<Rightarrow> Inl e | Inr repo \<Rightarrow> Inr (m repo))"

definition persist ::
  "('x \<Rightarrow> 'x jsvalue) \<Rightarrow> ('x, 's, 'e) resolver \<Rightarrow> 'x jsvalue list \<Rightarrow> 'e error + 's" where
  "persist constructor_of getReactiveRepository arguments =
     (let targetOrEntity = parameter arguments 0;
          maybeEntity = parameter arguments 1
      in case (if length arguments = 2 then Inr targetOrEntity
               else get_constructor constructor_of targetOrEntity) of
           Inl e \<Rightarrow> Inl e
         | Inr target \<Rightarrow>
             (let entity = (if length arguments = 2 then maybeEntity else targetOrEntity)
              in on_repository getReactiveRepository target (\<lambda>repo. repo_persist repo entity)))"

definition remove_entity ::
  "('x \<Rightarrow> 'x jsvalue) \<Rightarrow> ('x, 's, 'e) resolver \<Rightarrow> 'x jsvalue list \<Rightarrow> 'e error + 's" where
  "remove_entity constructor_of getReactiveRepository arguments =
     (let targetOrEntity = parameter arguments 0;
          maybeEntity = parameter arguments 1
      in case (if length arguments = 2 then Inr targetOrEntity
               else get_constructor constructor_of targetOrEntity) of
           Inl e \<Rightarrow> Inl e
         | Inr target \<Rightarrow>
             (let entity = (if length arguments = 2 then maybeEntity else targetOrEntity)
              in on_repository getReactiveRepository target (\<lambda>repo. repo_remove repo entity)))"

text \<open>
  The condition of an \<^verbatim>\<open>if\<close> tests truthiness: \<^verbatim>\<open>undefined\<close> and \<^verbatim>\<open>null\<close>
  are falsy, and which other values are (\<^verbatim>\<open>0\<close>, the empty string, \<^verbatim>\<open>false\<close>)
  is the parameter \<open>truthy\<close>.
\<close>

definition is_truthy :: "('x \<Rightarrow> bool) \<Rightarrow> 'x jsvalue \<Rightarrow> bool" where
  "is_truthy truthy v = (case v of Undefined \<Rightarrow> False | Null \<Rightarrow> False | Val x \<Rightarrow> truthy x)"

definition find_entities ::
  "('x \<Rightarrow> bool) \<Rightarrow> ('x, 's, 'e) resolver \<Rightarrow> 'x jsvalue \<Rightarrow> 'x jsvalue \<Rightarrow> 'x jsvalue \<Rightarrow> 'e error + 's" where
  "find_entities truthy getReactiveRepository entityClass conditionsOrFindOptions options =
     (if is_truthy truthy conditionsOrFindOptions \<and> is_truthy truthy options then
        on_repository getReactiveRepository entityClass
          (\<lambda>repo. repo_find repo [conditionsOrFindOptions, options])
      else if is_truthy truthy conditionsOrFindOptions then
        on_repository getReactiveRepository entityClass
          (\<lambda>repo. repo_find repo [conditionsOrFindOptions])
      else
        on_repository getReactiveRepository entityClass (\<lambda>repo. repo_find repo []))"

definition findAndCount ::
  "('x \<Rightarrow> bool) \<Rightarrow> ('x, 's, 'e) resolver \<Rightarrow> 'x jsvalue \<Rightarrow> 'x jsvalue \<Rightarrow> 'x jsvalue \<Rightarrow> 'e error + 's" where
  "findAndCount truthy getReactiveRepository entityClass conditionsOrFindOptions options =
     (if is_truthy truthy conditionsOrFindOptions \<and> is_truthy truthy options then
        on_repository getReactiveRepository entityClass
          (\<lambda>repo. repo_findAndCount repo [conditionsOrFindOptions, options])
      else if is_truthy truthy conditionsOrFindOptions then
        on_repository getReactiveRepository entityClass
          (\<lambda>repo. repo_findAndCount repo [conditionsOrFindOptions])
      else
        on_repository getReactiveRepository entityClass (\<lambda>repo. repo_findAndCount repo []))"

definition findOne ::
  "('x \<Rightarrow> bool) \<Rightarrow> ('x, 's, 'e) resolver \<Rightarrow> 'x jsvalue \<Rightarrow> 'x jsvalue \<Rightarrow> 'x jsvalue \<Rightarrow> 'e error + 's" where
  "findOne truthy getReactiveRepository entityClass conditionsOrFindOptions options =
     (if is_truthy truthy conditionsOrFindOptions \<and> is_truthy truthy options then
        on_repository getReactiveRepository entityClass
          (\<lambda>repo. repo_findOne repo [conditionsOrFindOptions, options])
      else if is_truthy truthy conditionsOrFindOptions then
        on_repository getReactiveRepository entityClass
          (\<lambda>repo. repo_findOne repo [conditionsOrFindOptions])
      else
        on_repository getReactiveRepository entityClass (\<lambda>repo. repo_findOne repo []))"

definition findOneById ::
  "('x, 's, 'e) resolver \<Rightarrow> 'x jsvalue \<Rightarrow> 'x jsvalue \<Rightarrow> 'x jsvalue \<Rightarrow> 'e error + 's" where
  "findOneById getReactiveRepository entityClass id' options =
     on_repository getReactiveRepository entityClass (\<lambda>repo. repo_findOneById repo id' options)"

section \<open>Reading a trace\<close>

text \<open>The calls that acquire or give back a runner, and the constructions of a provider.\<close>

fun acquisition :: "('d, 'r, 'o) event \<Rightarrow> bool" where
  "acquisition (Provide p) = True"
| "acquisition (Release p r) = True"
| "acquisition _ = False"

fun creation :: "('d, 'r, 'o) event \<Rightarrow> bool" where
  "creation (NewQueryRunnerProvider p d) = True"
| "creation _ = False"

text \<open>The calls recorded between the run states \<open>s\<close> and \<open>s'\<close>.\<close>

definition calls_between :: "('d, 'w, 'r, 'o) run \<Rightarrow> ('d, 'w, 'r, 'o) run \<Rightarrow> ('d, 'r, 'o) event list" where
  "calls_between s s' = drop (length (trace s)) (trace s')"

text \<open>
  An activation at \<open>s\<close> acquires runner \<open>r\<close> from provider \<open>p\<close>: the released check lets it
  pass, \<open>p\<close> is the provider it obtains, and \<open>provide()\<close> on \<open>p\<close> resolves with \<open>r\<close>.
\<close>

definition acquires ::
  "('d, 'w, 'r, 'e, 'v) env \<Rightarrow> ('d, 'w, 'r, 'o) run \<Rightarrow> nat \<Rightarrow> 'r \<Rightarrow> bool" where
  "acquires env s p r =
     (\<not> (useSingleDatabaseConnection (heap s) \<and> isReleased (heap s)) \<and>
      (case obtainQueryRunnerProvider s of
         (p', t) \<Rightarrow> p' = p \<and> fst (provide_impl env p (heap t)) = Inr r))"

text \<open>A computation that leaves the observation \<open>Q\<close> of the state as it found it.\<close>

definition unchanged_by :: "('s \<Rightarrow> 'b) \<Rightarrow> ('s \<Rightarrow> 'a \<times> 's) \<Rightarrow> bool" where
  "unchanged_by Q m = (\<forall>s. Q (snd (m s)) = Q s)"

text \<open>A collaborator that leaves the manager's \<^verbatim>\<open>queryRunnerProvider\<close> field alone.\<close>

definition keeps_provider :: "(('d, 'w) heap \<Rightarrow> 'a \<times> ('d, 'w) heap) \<Rightarrow> bool" where
  "keeps_provider f = unchanged_by queryRunnerProvider f"

definition env_keeps_provider :: "('d, 'w, 'r, 'e, 'v) env \<Rightarrow> bool" where
  "env_keeps_provider env =
     ((\<forall>p. keeps_provider (provide_impl env p)) \<and>
      (\<forall>p r. keeps_provider (release_impl env p r)) \<and>
      (\<forall>r q. keeps_provider (query_impl env r q)) \<and>
      (\<forall>r. keeps_provider (beginTransaction_impl env r)) \<and>
      (\<forall>r. keeps_provider (commitTransaction_impl env r)) \<and>
      (\<forall>r. keeps_provider (rollbackTransaction_impl env r)))"

text \<open>
  What one activation does about providers, from \<open>s\<close> to \<open>s'\<close>: with the field set to
  \<open>p\<close>, the first call is \<open>provide()\<close> on \<open>p\<close> and no provider is constructed; with the
  field unset, a provider is constructed at the next unused address from the connection's
  driver, \<open>provide()\<close> is called on it, and it is the only provider constructed.
\<close>

definition provider_use :: "('d, 'w, 'r, 'o) run \<Rightarrow> ('d, 'w, 'r, 'o) run \<Rightarrow> bool" where
  "provider_use s s' =
     (case queryRunnerProvider (heap s) of
        Some p \<Rightarrow>
          take 1 (calls_between s s') = [Provide p] \<and>
          filter creation (calls_between s s') = [] \<and>
          allocated s' = allocated s
      | None \<Rightarrow>
          take 2 (calls_between s s') =
            [NewQueryRunnerProvider (allocated s) (connection_driver (heap s)), Provide (allocated s)] \<and>
          filter creation (calls_between s s') =
            [NewQueryRunnerProvider (allocated s) (connection_driver (heap s))] \<and>
          allocated s' = Suc (allocated s))"

section \<open>Sample collaborators\<close>

text \<open>
  A concrete world for evaluating the model: the world is a counter of executed
  statements, runner \<open>p + 10\<close> is what provider \<open>p\<close> hands out, a query returns the
  counter and increments it, and errors are messages.
\<close>

definition sample_heap :: "(string, nat) heap" where
  "sample_heap =
     \<lparr>connection_driver = ''mysql'', useSingleDatabaseConnection = False,
      queryRunnerProvider = None, isReleased = False, world = 0\<rparr>"

definition per_call_run :: "(string, nat, nat, string) run" where
  "per_call_run = \<lparr>heap = sample_heap, trace = [], allocated = 0\<rparr>"

definition per_call_released_run :: "(string, nat, nat, string) run" where
  "per_call_released_run = \<lparr>heap = sample_heap\<lparr>isReleased := True\<rparr>, trace = [], allocated = 0\<rparr>"

definition shared_run :: "(string, nat, nat, string) run" where
  "shared_run =
     \<lparr>heap = sample_heap\<lparr>useSingleDatabaseConnection := True, queryRunnerProvider := Some 5\<rparr>,
      trace = [], allocated = 6\<rparr>"

definition single_unset_run :: "(string, nat, nat, string) run" where
  "single_unset_run =
     \<lparr>heap = sample_heap\<lparr>useSingleDatabaseConnection := True\<rparr>, trace = [], allocated = 0\<rparr>"

definition released_run :: "(string, nat, nat, string) run" where
  "released_run =
     \<lparr>heap = sample_heap\<lparr>useSingleDatabaseConnection := True, queryRunnerProvider := Some 5,
                        isReleased := True\<rparr>,
      trace = [], allocated = 6\<rparr>"

definition sample_env :: "(string, nat, nat, string, nat) env" where
  "sample_env =
     \<lparr>provide_impl = (\<lambda>p h. (Inr (p + 10), h)),
      release_impl = (\<lambda>p r h. (Inr (), h)),
      query_impl = (\<lambda>r q h. (Inr (world h), h\<lparr>world := Suc (world h)\<rparr>)),
      beginTransaction_impl = (\<lambda>r h. (Inr (), h)),
      commitTransaction_impl = (\<lambda>r h. (Inr (), h)),
      rollbackTransaction_impl = (\<lambda>r h. (Inr (), h))\<rparr>"

definition no_connection_env :: "(string, nat, nat, string, nat) env" where
  "no_connection_env = sample_env\<lparr>provide_impl := (\<lambda>p h. (Inl (Thrown ''no connection''), h))\<rparr>"

definition failed_commit_env :: "(string, nat, nat, string, nat) env" where
  "failed_commit_env =
     sample_env\<lparr>commitTransaction_impl := (\<lambda>r h. (Inl (Thrown ''commit failed''), h))\<rparr>"

definition failed_rollback_env :: "(string, nat, nat, string, nat) env" where
  "failed_rollback_env =
     sample_env\<lparr>rollbackTransaction_impl := (\<lambda>r h. (Inl (Thrown ''rollback failed''), h))\<rparr>"

definition persisting_work :: "(string, nat, string, nat, string) unit_of_work" where
  "persisting_work = (\<lambda>h. ((Inr 42, [''persist x'']), h\<lparr>world := Suc (world h)\<rparr>))"

definition throwing_work :: "(string, nat, string, nat, string) unit_of_work" where
  "throwing_work = (\<lambda>h. ((Inl (Thrown ''boom''), [''persist x'']), h))"

definition releasing_work :: "(string, nat, string, nat, string) unit_of_work" where
  "releasing_work = (\<lambda>h. ((Inr 42, [''release manager'']), h\<lparr>isReleased := True\<rparr>))"

text \<open>
  Sample entities are numbers whose runtime type is the number of hundreds; every value
  except \<open>0\<close> is truthy; the repository of target \<open>t\<close> answers with the name of the method
  called, \<open>t\<close>, and the arguments it received.
\<close>

definition sample_constructor :: "nat \<Rightarrow> nat jsvalue" where
  "sample_constructor x = Val (x div 100)"

definition sample_truthy :: "nat \<Rightarrow> bool" where
  "sample_truthy x = (x \<noteq> 0)"

definition sample_repository :: "nat \<Rightarrow> (nat, string \<times> nat \<times> nat jsvalue list) repository" where
  "sample_repository t =
     \<lparr>repo_persist = (\<lambda>e. (''persist'', t, [e])),
      repo_remove = (\<lambda>e. (''remove'', t, [e])),
      repo_find = (\<lambda>args. (''find'', t, args)),
      repo_findAndCount = (\<lambda>args. (''findAndCount'', t, args)),
      repo_findOne = (\<lambda>args. (''findOne'', t, args)),
      repo_findOneById = (\<lambda>i opts. (''findOneById'', t, [i, opts]))\<rparr>"

definition sample_resolver :: "(nat, string \<times> nat \<times> nat jsvalue list, string) resolver" where
  "sample_resolver target =
     (case target of
        Undefined \<Rightarrow> Inl (Thrown ''no repository'')
      | Null \<Rightarrow> Inl (Thrown ''no repository'')
      | Val t \<Rightarrow> Inr (sample_repository t))"

text \<open>The per-call run after one and after two subscriptions to a query stream.\<close>

definition queried_once :: "(string, nat, nat, string) run" where
  "queried_once =
     \<lparr>heap = sample_heap\<lparr>world := 1\<rparr>,
      trace = [NewQueryRunnerProvider 0 ''mysql'', Provide 0, RunQuery 10 ''SELECT 1'', Release 0 10],
      allocated = 1\<rparr>"

definition queried_twice :: "(string, nat, nat, string) run" where
  "queried_twice =
     \<lparr>heap = sample_heap\<lparr>world := 2\<rparr>,
      trace = [NewQueryRunnerProvider 0 ''mysql'', Provide 0, RunQuery 10 ''SELECT 1'', Release 0 10,
               NewQueryRunnerProvider 1 ''mysql'', Provide 1, RunQuery 11 ''SELECT 1'', Release 1 11],
      allocated = 2\<rparr>"

section \<open>Unfolding and step lemmas\<close>

lemmas stream_defs = subscribe_def query_def transaction_def fromPromise_def
lemmas async_defs = await_def try_catch_def try_finally_def resolve_def reject_def
lemmas call_defs = call_def provide_def release_def runner_query_def beginTransaction_def
  commitTransaction_def rollbackTransaction_def call_runInTransaction_def
lemmas sample_defs = sample_heap_def per_call_run_def per_call_released_run_def shared_run_def
  single_unset_run_def released_run_def sample_env_def no_connection_env_def failed_commit_env_def
  failed_rollback_env_def persisting_work_def throwing_work_def releasing_work_def
  queried_once_def queried_twice_def
lemmas dispatch_defs = persist_def remove_entity_def find_entities_def findAndCount_def findOne_def
  parameter_def get_constructor_def is_truthy_def on_repository_def
lemmas sample_dispatch_defs = sample_constructor_def sample_truthy_def sample_repository_def
  sample_resolver_def

subsection \<open>The provider expression\<close>

lemma obtain_cases:
  assumes "obtainQueryRunnerProvider s = (p, t)"
  shows "(queryRunnerProvider (heap s) = Some p \<and> t = s) \<or>
         (queryRunnerProvider (heap s) = None \<and> p = allocated s \<and>
          t = s\<lparr>trace := trace s @ [NewQueryRunnerProvider (allocated s) (connection_driver (heap s))],
                allocated := Suc (allocated s)\<rparr>)"
  using assms by (auto simp: obtainQueryRunnerProvider_def split: option.splits)

lemma obtain_trace:
  assumes "obtainQueryRunnerProvider s = (p, t)"
  shows "heap t = heap s \<and>
         (\<exists>pre. trace t = trace s @ pre \<and> filter acquisition pre = [] \<and>
                filter (Not \<circ> creation) pre = [])"
  using obtain_cases[OF assms] by auto

lemma obtain_heap: "heap (snd (obtainQueryRunnerProvider s)) = heap s"
  by (simp add: obtainQueryRunnerProvider_def split: option.splits)

subsection \<open>One run of each thunk, step by step\<close>

lemma query_rejected_provide:
  assumes "\<not> (useSingleDatabaseConnection (heap s) \<and> isReleased (heap s))"
   and "obtainQueryRunnerProvider s = (p, t)"
   and "provide_impl env p (heap t) = (Inl e, h1)"
  shows "query_promiseFn env q s = (Inl e, t\<lparr>heap := h1, trace := trace t @ [Provide p]\<rparr>)"
  using assms by (auto simp add: query_promiseFn_def await_def provide_def call_def)

lemma transaction_rejected_provide:
  assumes "\<not> (useSingleDatabaseConnection (heap s) \<and> isReleased (heap s))"
   and "obtainQueryRunnerProvider s = (p, t)"
   and "provide_impl env p (heap t) = (Inl e, h1)"
  shows "transaction_promiseFn env fn s = (Inl e, t\<lparr>heap := h1, trace := trace t @ [Provide p]\<rparr>)"
  using assms by (auto simp add: transaction_promiseFn_def await_def provide_def call_def)

lemma query_run:
  assumes "\<not> (useSingleDatabaseConnection (heap s) \<and> isReleased (heap s))"
   and "obtainQueryRunnerProvider s = (p, t)"
   and "provide_impl env p (heap t) = (Inr r, h1)"
   and "query_impl env r q h1 = (x, h2)"
   and "release_impl env p r h2 = (y, h3)"
  shows "query_promiseFn env q s =
           ((case y of Inl e \<Rightarrow> Inl e | Inr u \<Rightarrow> x),
            t\<lparr>heap := h3, trace := trace t @ [Provide p, RunQuery r q, Release p r]\<rparr>)"
  using assms
  by (auto simp add: query_promiseFn_def async_defs call_defs split: sum.splits)

lemma transaction_run:
  assumes "\<not> (useSingleDatabaseConnection (heap s) \<and> isReleased (heap s))"
   and "obtainQueryRunnerProvider s = (p, t)"
   and "provide_impl env p (heap t) = (Inr r, h1)"
   and "beginTransaction_impl env r h1 = (b, h2)"
   and "fn h2 = ((f, ops), h3)"
   and "commitTransaction_impl env r h3 = (c, h4)"
   and "transaction_promiseFn env fn s = (res, s')"
  shows "trace s' = trace t @ [Provide p, BeginTransaction r] @
           (if isl b then [RollbackTransaction r]
            else map UnitOfWorkOp ops @
              (if isl f then [RollbackTransaction r]
               else if isl c then [CommitTransaction r, RollbackTransaction r]
               else [CommitTransaction r])) @
           [Release p r]
         \<and> allocated s' = allocated t"
  using assms
  by (auto simp add: transaction_promiseFn_def async_defs call_defs split: sum.splits prod.splits)

lemma transaction_rollback_run:
  assumes "\<not> (useSingleDatabaseConnection (heap s) \<and> isReleased (heap s))"
   and "obtainQueryRunnerProvider s = (p, t)"
   and "provide_impl env p (heap t) = (Inr r, h1)"
   and "beginTransaction_impl env r h1 = (Inr (), h2)"
   and "fn h2 = ((Inl e, ops), h3)"
   and "rollbackTransaction_impl env r h3 = (rb, h4)"
   and "release_impl env p r h4 = (rl, h5)"
  shows "transaction_promiseFn env fn s =
           (Inl (case rl of Inl e3 \<Rightarrow> e3 | Inr u \<Rightarrow> (case rb of Inl e2 \<Rightarrow> e2 | Inr u \<Rightarrow> e)),
            t\<lparr>heap := h5,
              trace := trace t @ [Provide p, BeginTransaction r] @ map UnitOfWorkOp ops @
                       [RollbackTransaction r, Release p r]\<rparr>)"
  using assms
  by (auto simp add: transaction_promiseFn_def async_defs call_defs split: sum.splits)

lemma transaction_commit_run:
  assumes "\<not> (useSingleDatabaseConnection (heap s) \<and> isReleased (heap s))"
   and "obtainQueryRunnerProvider s = (p, t)"
   and "provide_impl env p (heap t) = (Inr r, h1)"
   and "beginTransaction_impl env r h1 = (Inr (), h2)"
   and "fn h2 = ((Inr v, ops), h3)"
   and "commitTransaction_impl env r h3 = (Inr (), h4)"
   and "release_impl env p r h4 = (rl, h5)"
  shows "transaction_promiseFn env fn s =
           ((case rl of Inl e3 \<Rightarrow> Inl e3 | Inr u \<Rightarrow> Inr v),
            t\<lparr>heap := h5,
              trace := trace t @ [Provide p, BeginTransaction r] @ map UnitOfWorkOp ops @
                       [CommitTransaction r, Release p r]\<rparr>)"
  using assms
  by (auto simp add: transaction_promiseFn_def async_defs call_defs split: sum.splits)

lemma creation_UnitOfWorkOp: "filter creation (map UnitOfWorkOp ops) = []"
  by (induction ops) auto

lemma acquisition_UnitOfWorkOp: "filter acquisition (map UnitOfWorkOp ops) = []"
  by (induction ops) auto

subsection \<open>Acquisition and release in one run\<close>

lemma acquiresD:
  assumes "acquires env s p r"
  obtains t h1 where "\<not> (useSingleDatabaseConnection (heap s) \<and> isReleased (heap s))"
    and "obtainQueryRunnerProvider s = (p, t)"
    and "provide_impl env p (heap t) = (Inr r, h1)"
proof -
  obtain p' t where ob: "obtainQueryRunnerProvider s = (p', t)"
    by (cases "obtainQueryRunnerProvider s")
  with assms have g: "\<not> (useSingleDatabaseConnection (heap s) \<and> isReleased (heap s))"
    and pp: "p' = p" and pr: "fst (provide_impl env p (heap t)) = Inr r"
    by (auto simp: acquires_def)
  obtain h1 where "provide_impl env p (heap t) = (Inr r, h1)"
    using pr by (cases "provide_impl env p (heap t)") auto
  with g ob pp that show thesis by blast
qed

lemma query_acquisitions:
  assumes "acquires env s p r"
  shows "filter acquisition (calls_between s (snd (query_promiseFn env q s))) = [Provide p, Release p r]
       \<and> filter (Not \<circ> creation) (calls_between s (snd (query_promiseFn env q s))) =
           [Provide p, RunQuery r q, Release p r]
       \<and> last (trace (snd (query_promiseFn env q s))) = Release p r"
proof -
  from assms obtain t h1 where g: "\<not> (useSingleDatabaseConnection (heap s) \<and> isReleased (heap s))"
    and ob: "obtainQueryRunnerProvider s = (p, t)"
    and a: "provide_impl env p (heap t) = (Inr r, h1)"
    by (rule acquiresD)
  obtain x h2 where b: "query_impl env r q h1 = (x, h2)" by (cases "query_impl env r q h1")
  obtain y h3 where c: "release_impl env p r h2 = (y, h3)" by (cases "release_impl env p r h2")
  from obtain_trace[OF ob] obtain pre where pre: "trace t = trace s @ pre"
    "filter acquisition pre = []" "filter (Not \<circ> creation) pre = []" by blast
  show ?thesis
    using query_run[OF g ob a b c] pre by (simp add: calls_between_def)
qed

lemma transaction_acquisitions:
  assumes "acquires env s p r"
  shows "filter acquisition (calls_between s (snd (transaction_promiseFn env fn s))) = [Provide p, Release p r]
       \<and> last (trace (snd (transaction_promiseFn env fn s))) = Release p r"
proof -
  from assms obtain t h1 where g: "\<not> (useSingleDatabaseConnection (heap s) \<and> isReleased (heap s))"
    and ob: "obtainQueryRunnerProvider s = (p, t)"
    and a: "provide_impl env p (heap t) = (Inr r, h1)"
    by (rule acquiresD)
  obtain b h2 where b: "beginTransaction_impl env r h1 = (b, h2)" by (cases "beginTransaction_impl env r h1")
  obtain f ops h3 where f: "fn h2 = ((f, ops), h3)" by (cases "fn h2") auto
  obtain c h4 where c: "commitTransaction_impl env r h3 = (c, h4)" by (cases "commitTransaction_impl env r h3")
  obtain res s' where run: "transaction_promiseFn env fn s = (res, s')" by (cases "transaction_promiseFn env fn s")
  from obtain_trace[OF ob] obtain pre where pre: "trace t = trace s @ pre" "filter acquisition pre = []" by blast
  show ?thesis
    using transaction_run[OF g ob a b f c run] pre run
    by (simp add: calls_between_def acquisition_UnitOfWorkOp)
qed


subsection \<open>Which provider a run uses\<close>

lemma provider_use_after_obtain:
  assumes ob: "obtainQueryRunnerProvider s = (p, t)"
    and tr: "trace s' = trace t @ Provide p # rest"
    and cr: "filter creation rest = []"
    and al: "allocated s' = allocated t"
  shows "provider_use s s'"
  using obtain_cases[OF ob] tr cr al
  by (auto simp add: provider_use_def calls_between_def)

lemma query_provider_use:
  assumes g: "\<not> (useSingleDatabaseConnection (heap s) \<and> isReleased (heap s))"
  shows "provider_use s (snd (query_promiseFn env q s))"
proof -
  obtain p t where ob: "obtainQueryRunnerProvider s = (p, t)" by (cases "obtainQueryRunnerProvider s")
  obtain a h1 where pr: "provide_impl env p (heap t) = (a, h1)" by (cases "provide_impl env p (heap t)")
  show ?thesis
  proof (cases a)
    case (Inl e)
    with query_rejected_provide[OF g ob, of env e h1 q] pr
    show ?thesis by (intro provider_use_after_obtain[OF ob, where rest = "[]"]) simp_all
  next
    case (Inr r)
    obtain x h2 where b: "query_impl env r q h1 = (x, h2)" by (cases "query_impl env r q h1")
    obtain y h3 where c: "release_impl env p r h2 = (y, h3)" by (cases "release_impl env p r h2")
    from query_run[OF g ob pr[unfolded Inr] b c]
    show ?thesis
      by (intro provider_use_after_obtain[OF ob, where rest = "[RunQuery r q, Release p r]"]) simp_all
  qed
qed

lemma transaction_provider_use:
  assumes g: "\<not> (useSingleDatabaseConnection (heap s) \<and> isReleased (heap s))"
  shows "provider_use s (snd (transaction_promiseFn env fn s))"
proof -
  obtain p t where ob: "obtainQueryRunnerProvider s = (p, t)" by (cases "obtainQueryRunnerProvider s")
  obtain a h1 where pr: "provide_impl env p (heap t) = (a, h1)" by (cases "provide_impl env p (heap t)")
  show ?thesis
  proof (cases a)
    case (Inl e)
    with transaction_rejected_provide[OF g ob, of env e h1 fn] pr
    show ?thesis by (intro provider_use_after_obtain[OF ob, where rest = "[]"]) simp_all
  next
    case (Inr r)
    obtain b h2 where b: "beginTransaction_impl env r h1 = (b, h2)" by (cases "beginTransaction_impl env r h1")
    obtain f ops h3 where f: "fn h2 = ((f, ops), h3)" by (cases "fn h2") auto
    obtain c h4 where c: "commitTransaction_impl env r h3 = (c, h4)" by (cases "commitTransaction_impl env r h3")
    obtain res s' where run: "transaction_promiseFn env fn s = (res, s')" by (cases "transaction_promiseFn env fn s")
    let ?rest = "BeginTransaction r #
      (if isl b then [RollbackTransaction r] else map UnitOfWorkOp ops @
         (if isl f then [RollbackTransaction r]
          else if isl c then [CommitTransaction r, RollbackTransaction r]
          else [CommitTransaction r])) @ [Release p r]"
    from transaction_run[OF g ob pr[unfolded Inr] b f c run] run
    show ?thesis
      by (intro provider_use_after_obtain[OF ob, where rest = ?rest])
         (simp_all add: creation_UnitOfWorkOp)
  qed
qed

subsection \<open>The thunks assign no field\<close>

lemma unchanged_by_resolve: "unchanged_by Q (resolve v)"
  by (simp add: unchanged_by_def resolve_def)

lemma unchanged_by_reject: "unchanged_by Q (reject e)"
  by (simp add: unchanged_by_def reject_def)

lemma unchanged_byD: "unchanged_by Q m \<Longrightarrow> m s = (r, s') \<Longrightarrow> Q s' = Q s"
  by (metis unchanged_by_def snd_conv)

lemma unchanged_by_await:
  assumes "unchanged_by Q m" and "\<And>v. unchanged_by Q (f v)"
  shows "unchanged_by Q (await m f)"
  unfolding unchanged_by_def
proof
  fix s
  obtain r s' where ms: "m s = (r, s')" by (cases "m s")
  with assms(1) have q: "Q s' = Q s" by (rule unchanged_byD)
  show "Q (snd (await m f s)) = Q s"
  proof (cases r)
    case (Inl e)
    with ms q show ?thesis by (simp add: await_def)
  next
    case (Inr v)
    with ms have "await m f s = f v s'" by (simp add: await_def)
    with assms(2)[of v] q show ?thesis by (simp add: unchanged_by_def)
  qed
qed

lemma unchanged_by_try_catch:
  assumes "unchanged_by Q m" and "\<And>e. unchanged_by Q (h e)"
  shows "unchanged_by Q (try_catch m h)"
  unfolding unchanged_by_def
proof
  fix s
  obtain r s' where ms: "m s = (r, s')" by (cases "m s")
  with assms(1) have q: "Q s' = Q s" by (rule unchanged_byD)
  show "Q (snd (try_catch m h s)) = Q s"
  proof (cases r)
    case (Inr v)
    with ms q show ?thesis by (simp add: try_catch_def)
  next
    case (Inl e)
    with ms have "try_catch m h s = h e s'" by (simp add: try_catch_def)
    with assms(2)[of e] q show ?thesis by (simp add: unchanged_by_def)
  qed
qed

lemma unchanged_by_try_finally:
  assumes "unchanged_by Q m" and "unchanged_by Q fin"
  shows "unchanged_by Q (try_finally m fin)"
  unfolding unchanged_by_def
proof
  fix s
  obtain r s' where ms: "m s = (r, s')" by (cases "m s")
  with assms(1) have q: "Q s' = Q s" by (rule unchanged_byD)
  obtain y s'' where fs: "fin s' = (y, s'')" by (cases "fin s'")
  with assms(2) have q': "Q s'' = Q s'" by (rule unchanged_byD)
  from ms fs q q' show "Q (snd (try_finally m fin s)) = Q s"
    by (cases y) (simp_all add: try_finally_def)
qed

lemma unchanged_by_call:
  fixes f :: "('d, 'w) heap \<Rightarrow> ('e error + 'a) \<times> ('d, 'w) heap"
    and ev :: "('d, 'r, 'o) event"
  assumes "keeps_provider f"
  shows "unchanged_by (\<lambda>s. queryRunnerProvider (heap s)) (call ev f)"
  unfolding unchanged_by_def
proof
  fix s :: "('d, 'w, 'r, 'o) run"
  obtain r h' where fh: "f (heap s) = (r, h')" by (cases "f (heap s)")
  with assms have "queryRunnerProvider h' = queryRunnerProvider (heap s)"
    unfolding keeps_provider_def by (rule unchanged_byD)
  with fh show "queryRunnerProvider (heap (snd (call ev f s))) = queryRunnerProvider (heap s)"
    by (simp add: call_def)
qed

lemma unchanged_by_call_runInTransaction:
  fixes fn :: "('d, 'w, 'e, 'v, 'o) unit_of_work"
  assumes "keeps_provider fn"
  shows "unchanged_by (\<lambda>s :: ('d, 'w, 'r, 'o) run. queryRunnerProvider (heap s))
           (call_runInTransaction fn)"
  unfolding unchanged_by_def
proof
  fix s :: "('d, 'w, 'r, 'o) run"
  obtain r ops h' where fh: "fn (heap s) = ((r, ops), h')" by (cases "fn (heap s)") auto
  with assms have "queryRunnerProvider h' = queryRunnerProvider (heap s)"
    unfolding keeps_provider_def by (rule unchanged_byD)
  with fh show "queryRunnerProvider (heap (snd (call_runInTransaction fn s))) = queryRunnerProvider (heap s)"
    by (simp add: call_runInTransaction_def)
qed

lemma query_keeps_field:
  assumes "env_keeps_provider env"
  shows "queryRunnerProvider (heap (snd (query_promiseFn env q s))) = queryRunnerProvider (heap s)"
proof -
  let ?Q = "\<lambda>s. queryRunnerProvider (heap s)"
  have body: "unchanged_by ?Q (await (provide env p)
                    (\<lambda>r. try_finally (await (runner_query env r q) resolve) (release env p r)))" for p
    using assms unfolding env_keeps_provider_def provide_def release_def runner_query_def
    by (intro unchanged_by_await unchanged_by_try_finally unchanged_by_call unchanged_by_resolve) auto
  show ?thesis
  proof (cases "useSingleDatabaseConnection (heap s) \<and> isReleased (heap s)")
    case True
    then show ?thesis by (simp add: query_promiseFn_def reject_def)
  next
    case False
    obtain p t where ob: "obtainQueryRunnerProvider s = (p, t)" by (cases "obtainQueryRunnerProvider s")
    with obtain_heap[of s] have ht: "heap t = heap s" by simp
    let ?rest = "await (provide env p)
                    (\<lambda>r. try_finally (await (runner_query env r q) resolve) (release env p r))"
    have run: "query_promiseFn env q s = ?rest t"
      using False ob by (auto simp add: query_promiseFn_def)
    from body[of p] have "?Q (snd (?rest t)) = ?Q t" unfolding unchanged_by_def by blast
    with run ht show ?thesis by simp
  qed
qed

lemma transaction_keeps_field:
  assumes "env_keeps_provider env" "keeps_provider fn"
  shows "queryRunnerProvider (heap (snd (transaction_promiseFn env fn s))) = queryRunnerProvider (heap s)"
proof -
  let ?Q = "\<lambda>s. queryRunnerProvider (heap s)"
  have body: "unchanged_by ?Q (await (provide env p)
                    (\<lambda>r. try_finally
                           (try_catch
                              (await (beginTransaction env r)
                                 (\<lambda>_. await (call_runInTransaction fn)
                                    (\<lambda>result. await (commitTransaction env r)
                                       (\<lambda>_. resolve result))))
                              (\<lambda>err. await (rollbackTransaction env r) (\<lambda>_. reject err)))
                           (release env p r)))" for p
    using assms unfolding env_keeps_provider_def provide_def release_def beginTransaction_def
      commitTransaction_def rollbackTransaction_def
    by (intro unchanged_by_await unchanged_by_try_finally unchanged_by_try_catch unchanged_by_call
        unchanged_by_call_runInTransaction unchanged_by_resolve unchanged_by_reject) auto
  show ?thesis
  proof (cases "useSingleDatabaseConnection (heap s) \<and> isReleased (heap s)")
    case True
    then show ?thesis by (simp add: transaction_promiseFn_def reject_def)
  next
    case False
    obtain p t where ob: "obtainQueryRunnerProvider s = (p, t)" by (cases "obtainQueryRunnerProvider s")
    with obtain_heap[of s] have ht: "heap t = heap s" by simp
    let ?rest = "await (provide env p)
                    (\<lambda>r. try_finally
                           (try_catch
                              (await (beginTransaction env r)
                                 (\<lambda>_. await (call_runInTransaction fn)
                                    (\<lambda>result. await (commitTransaction env r)
                                       (\<lambda>_. resolve result))))
                              (\<lambda>err. await (rollbackTransaction env r) (\<lambda>_. reject err)))
                           (release env p r))"
    have run: "transaction_promiseFn env fn s = ?rest t"
      using False ob by (auto simp add: transaction_promiseFn_def)
    from body[of p] have "?Q (snd (?rest t)) = ?Q t" unfolding unchanged_by_def by blast
    with run ht show ?thesis by simp
  qed
qed

lemma subscribe_query:
  "subscribe (query env q) s = (settle (fst (query_promiseFn env q s)), snd (query_promiseFn env q s))"
  by (simp add: stream_defs split: prod.splits)

lemma subscribe_transaction:
  "subscribe (transaction env fn) s =
     (settle (fst (transaction_promiseFn env fn s)), snd (transaction_promiseFn env fn s))"
  by (simp add: stream_defs split: prod.splits)

lemmas eval_defs = subscribe_query subscribe_transaction settle_def query_promiseFn_def
  transaction_promiseFn_def obtainQueryRunnerProvider_def async_defs call_defs sample_defs

lemma sample_env_keeps_provider: "env_keeps_provider sample_env"
  by (simp add: env_keeps_provider_def keeps_provider_def unchanged_by_def sample_env_def)

lemma persisting_work_keeps_provider: "keeps_provider persisting_work"
  by (simp add: keeps_provider_def unchanged_by_def persisting_work_def)

section \<open>Claims\<close>

subsection \<open>C1\<close>




subsection \<open>C2\<close>

text \<open>
  Claim C2, as amended. When the unit of work is invoked (the released check passes,
  \<^verbatim>\<open>provide()\<close> and \<^verbatim>\<open>beginTransaction()\<close> resolve) and rejects with \<open>e\<close>, the
  subscription calls \<^verbatim>\<open>rollbackTransaction()\<close> exactly once, never
  \<^verbatim>\<open>commitTransaction()\<close>, and then \<^verbatim>\<open>release()\<close>. The stream fails with \<open>e\<close>
  when the rollback and the release resolve; a rejection of the rollback replaces \<open>e\<close>,
  and a rejection of the release replaces either.
\<close>

theorem transaction_rollback_on_rejection:
  assumes "\<not> (useSingleDatabaseConnection (heap s) \<and> isReleased (heap s))"
      and "obtainQueryRunnerProvider s = (p, t)"
      and "provide_impl env p (heap t) = (Inr r, h1)"
      and "beginTransaction_impl env r h1 = (Inr (), h2)"
      and "fn h2 = ((Inl e, ops), h3)"
      and "rollbackTransaction_impl env r h3 = (rb, h4)"
      and "release_impl env p r h4 = (rl, h5)"
  shows "subscribe (transaction env fn) s =
           ([OnError (case rl of Inl e3 \<Rightarrow> e3 | Inr u \<Rightarrow> (case rb of Inl e2 \<Rightarrow> e2 | Inr u \<Rightarrow> e))],
            t\<lparr>heap := h5,
              trace := trace t @ [Provide p, BeginTransaction r] @ map UnitOfWorkOp ops @
                       [RollbackTransaction r, Release p r]\<rparr>)"
  using transaction_rollback_run[where fn = fn and ?h2.0 = h2, OF assms]
  by (simp add: subscribe_transaction settle_def)

text \<open>The statement at a sample run.\<close>

theorem transaction_rollback_on_rejection_witness:
  "subscribe (transaction sample_env throwing_work) per_call_run =
     ([OnError (Thrown ''boom'')],
      \<lparr>heap = sample_heap,
       trace = [NewQueryRunnerProvider 0 ''mysql'', Provide 0, BeginTransaction 10,
                UnitOfWorkOp ''persist x'', RollbackTransaction 10, Release 0 10],
       allocated = 1\<rparr>)"
proof -
  let ?t = "per_call_run\<lparr>trace := [NewQueryRunnerProvider 0 ''mysql''], allocated := 1\<rparr>"
  have h1: "\<not> (useSingleDatabaseConnection (heap per_call_run) \<and> isReleased (heap per_call_run))"
    by (simp add: sample_defs)
  have h2: "obtainQueryRunnerProvider per_call_run = (0, ?t)"
    by (simp add: obtainQueryRunnerProvider_def sample_defs)
  have h3: "provide_impl sample_env 0 (heap ?t) = (Inr 10, sample_heap)"
    by (simp add: sample_defs)
  have h4: "beginTransaction_impl sample_env 10 sample_heap = (Inr (), sample_heap)"
    by (simp add: sample_defs)
  have h5: "throwing_work sample_heap = ((Inl (Thrown ''boom''), [''persist x'']), sample_heap)"
    by (simp add: sample_defs)
  have h6: "rollbackTransaction_impl sample_env 10 sample_heap = (Inr (), sample_heap)"
    by (simp add: sample_defs)
  have h7: "release_impl sample_env 0 10 sample_heap = (Inr (), sample_heap)"
    by (simp add: sample_defs)
  from transaction_rollback_on_rejection[where fn = throwing_work and ?h2.0 = sample_heap, OF h1 h2 h3 h4 h5 h6 h7]
  show ?thesis by (simp add: per_call_run_def)
qed

text \<open>
  The unit of work rejects with \<open>boom\<close>, the rollback rejects too, and the stream fails with
  the error of the rollback: the original error is masked.
\<close>

theorem failed_rollback_masks_error:
  "fst (fst (throwing_work sample_heap)) = Inl (Thrown ''boom'')
   \<and> fst (subscribe (transaction failed_rollback_env throwing_work) per_call_run) =
       [OnError (Thrown ''rollback failed'')]
   \<and> fst (subscribe (transaction failed_rollback_env throwing_work) per_call_run) \<noteq>
       [OnError (Thrown ''boom'')]"
  by (simp add: eval_defs)

subsection \<open>C3\<close>

text \<open>
  Claim C3, as amended. When the unit of work resolves with \<open>v\<close>, the released check
  passes and every call on the provider and the runner resolves (\<^verbatim>\<open>provide\<close>,
  \<^verbatim>\<open>beginTransaction\<close>, \<^verbatim>\<open>commitTransaction\<close>, \<^verbatim>\<open>release\<close>), a subscription to \<^verbatim>\<open>transaction(fn)\<close> makes the calls
  \<^verbatim>\<open>provide\<close>, \<^verbatim>\<open>beginTransaction\<close>, the operations of the unit of work,
  \<^verbatim>\<open>commitTransaction\<close>, \<^verbatim>\<open>release\<close> in this order (one commit, no rollback, the
  release after the commit), and the stream emits \<open>v\<close> and completes.
\<close>

theorem transaction_commit_sequence:
  assumes "\<not> (useSingleDatabaseConnection (heap s) \<and> isReleased (heap s))"
      and "obtainQueryRunnerProvider s = (p, t)"
      and "provide_impl env p (heap t) = (Inr r, h1)"
      and "beginTransaction_impl env r h1 = (Inr (), h2)"
      and "fn h2 = ((Inr v, ops), h3)"
      and "commitTransaction_impl env r h3 = (Inr (), h4)"
      and "release_impl env p r h4 = (Inr (), h5)"
  shows "subscribe (transaction env fn) s =
           ([OnNext v, OnCompleted],
            t\<lparr>heap := h5,
              trace := trace t @ [Provide p, BeginTransaction r] @ map UnitOfWorkOp ops @
                       [CommitTransaction r, Release p r]\<rparr>)"
  using transaction_commit_run[where fn = fn and ?h2.0 = h2, OF assms]
  by (simp add: subscribe_transaction settle_def)

text \<open>The statement at a sample run.\<close>

theorem transaction_commit_sequence_witness:
  "subscribe (transaction sample_env persisting_work) per_call_run =
     ([OnNext 42, OnCompleted],
      \<lparr>heap = sample_heap\<lparr>world := 1\<rparr>,
       trace = [NewQueryRunnerProvider 0 ''mysql'', Provide 0, BeginTransaction 10,
                UnitOfWorkOp ''persist x'', CommitTransaction 10, Release 0 10],
       allocated = 1\<rparr>)"
proof -
  let ?t = "per_call_run\<lparr>trace := [NewQueryRunnerProvider 0 ''mysql''], allocated := 1\<rparr>"
  let ?h = "sample_heap\<lparr>world := 1\<rparr>"
  have h1: "\<not> (useSingleDatabaseConnection (heap per_call_run) \<and> isReleased (heap per_call_run))"
    by (simp add: sample_defs)
  have h2: "obtainQueryRunnerProvider per_call_run = (0, ?t)"
    by (simp add: obtainQueryRunnerProvider_def sample_defs)
  have h3: "provide_impl sample_env 0 (heap ?t) = (Inr 10, sample_heap)"
    by (simp add: sample_defs)
  have h4: "beginTransaction_impl sample_env 10 sample_heap = (Inr (), sample_heap)"
    by (simp add: sample_defs)
  have h5: "persisting_work sample_heap = ((Inr 42, [''persist x'']), ?h)"
    by (simp add: sample_defs)
  have h6: "commitTransaction_impl sample_env 10 ?h = (Inr (), ?h)"
    by (simp add: sample_defs)
  have h7: "release_impl sample_env 0 10 ?h = (Inr (), ?h)"
    by (simp add: sample_defs)
  from transaction_commit_sequence[where fn = persisting_work and ?h2.0 = sample_heap, OF h1 h2 h3 h4 h5 h6 h7]
  show ?thesis by (simp add: per_call_run_def)
qed

text \<open>
  The unit of work resolves with \<open>42\<close>, but \<^verbatim>\<open>commitTransaction\<close> rejects: the rollback
  is called, and the stream fails instead of emitting \<open>42\<close>.
\<close>

theorem resolved_work_failed_commit_fails_stream:
  "fst (fst (persisting_work sample_heap)) = Inr 42
   \<and> fst (subscribe (transaction failed_commit_env persisting_work) per_call_run) =
       [OnError (Thrown ''commit failed'')]
   \<and> RollbackTransaction 10 \<in>
       set (trace (snd (subscribe (transaction failed_commit_env persisting_work) per_call_run)))"
  by (simp add: eval_defs)

subsection \<open>C4\<close>

text \<open>
  Claim C4, as amended. In every subscription to \<^verbatim>\<open>transaction(fn)\<close> that acquires a
  runner, whatever the outcomes \<open>b\<close> of \<^verbatim>\<open>beginTransaction\<close>, \<open>f\<close> of the unit of work
  and \<open>c\<close> of \<^verbatim>\<open>commitTransaction\<close>: the commit is called exactly when
  \<^verbatim>\<open>beginTransaction\<close> and the unit of work resolve, the rollback exactly when one of
  \<^verbatim>\<open>beginTransaction\<close>, the unit of work and the commit rejects. So at least one of
  the two is called, each at most once, and both (the commit, then the rollback) exactly
  when the commit itself rejects. \<^verbatim>\<open>release\<close> is called exactly once, as the last call.
\<close>

theorem transaction_commit_rollback_decision:
  assumes "\<not> (useSingleDatabaseConnection (heap s) \<and> isReleased (heap s))"
      and "obtainQueryRunnerProvider s = (p, t)"
      and "provide_impl env p (heap t) = (Inr r, h1)"
      and "beginTransaction_impl env r h1 = (b, h2)"
      and "fn h2 = ((f, ops), h3)"
      and "commitTransaction_impl env r h3 = (c, h4)"
  shows "trace (snd (subscribe (transaction env fn) s)) =
           trace t @ [Provide p, BeginTransaction r] @
           (if isl b then [RollbackTransaction r]
            else map UnitOfWorkOp ops @
              (if isl f then [RollbackTransaction r]
               else if isl c then [CommitTransaction r, RollbackTransaction r]
               else [CommitTransaction r])) @
           [Release p r]"
proof -
  obtain res s' where run: "transaction_promiseFn env fn s = (res, s')"
    by (cases "transaction_promiseFn env fn s")
  from transaction_run[where fn = fn and ?h2.0 = h2, OF assms run] run show ?thesis
    by (simp add: subscribe_transaction)
qed

text \<open>The statement at a sample run.\<close>

theorem transaction_commit_rollback_decision_witness:
  "trace (snd (subscribe (transaction sample_env throwing_work) shared_run)) =
     [Provide 5, BeginTransaction 15, UnitOfWorkOp ''persist x'', RollbackTransaction 15, Release 5 15]"
proof -
  let ?h = "heap shared_run"
  have h1: "\<not> (useSingleDatabaseConnection (heap shared_run) \<and> isReleased (heap shared_run))"
    by (simp add: sample_defs)
  have h2: "obtainQueryRunnerProvider shared_run = (5, shared_run)"
    by (simp add: obtainQueryRunnerProvider_def sample_defs)
  have h3: "provide_impl sample_env 5 ?h = (Inr 15, ?h)"
    by (simp add: sample_defs)
  have h4: "beginTransaction_impl sample_env 15 ?h = (Inr (), ?h)"
    by (simp add: sample_defs)
  have h5: "throwing_work ?h = ((Inl (Thrown ''boom''), [''persist x'']), ?h)"
    by (simp add: sample_defs)
  have h6: "commitTransaction_impl sample_env 15 ?h = (Inr (), ?h)"
    by (simp add: sample_defs)
  have t: "trace shared_run = []" by (simp add: sample_defs)
  from transaction_commit_rollback_decision[where fn = throwing_work and ?h2.0 = ?h, OF h1 h2 h3 h4 h5 h6] t
  show ?thesis by simp
qed

text \<open>
  When \<^verbatim>\<open>commitTransaction\<close> rejects, the commit and the rollback are both called.
\<close>

theorem failed_commit_invokes_rollback_too:
  "trace (snd (subscribe (transaction failed_commit_env persisting_work) per_call_run)) =
     [NewQueryRunnerProvider 0 ''mysql'', Provide 0, BeginTransaction 10, UnitOfWorkOp ''persist x'',
      CommitTransaction 10, RollbackTransaction 10, Release 0 10]"
  by (simp add: eval_defs)

subsection \<open>C5\<close>

text \<open>
  Claim C5, as amended. In every subscription to a stream of \<^verbatim>\<open>query\<close> or \<^verbatim>\<open>transaction\<close>
  that acquires runner \<open>r\<close> from provider \<open>p\<close> (the released check passes and
  \<^verbatim>\<open>provide()\<close> resolves), the calls contain exactly one \<^verbatim>\<open>provide()\<close> and exactly
  one \<^verbatim>\<open>release()\<close>, of that runner on that provider, whatever the query, the unit of
  work and the transaction calls do (they may fail, and they may flip \<open>isReleased\<close>, being
  arbitrary functions of the heap). The release is the last call of the run, so it has
  completed when the stream settles.
\<close>

theorem provide_release_paired:
  assumes "acquires env s p r"
  shows "filter acquisition (calls_between s (snd (subscribe (query env q) s))) = [Provide p, Release p r]
       \<and> last (trace (snd (subscribe (query env q) s))) = Release p r
       \<and> filter acquisition (calls_between s (snd (subscribe (transaction env fn) s))) = [Provide p, Release p r]
       \<and> last (trace (snd (subscribe (transaction env fn) s))) = Release p r"
  using query_acquisitions[OF assms, of q] transaction_acquisitions[OF assms, of fn]
  by (simp add: subscribe_query subscribe_transaction)

text \<open>The statement at a sample run.\<close>

theorem provide_release_paired_witness:
  "isReleased (heap (snd (subscribe (transaction sample_env releasing_work) shared_run)))
   \<and> filter acquisition (calls_between shared_run (snd (subscribe (query sample_env ''SELECT 1'') shared_run))) =
        [Provide 5, Release 5 15]
   \<and> last (trace (snd (subscribe (query sample_env ''SELECT 1'') shared_run))) = Release 5 15
   \<and> filter acquisition (calls_between shared_run (snd (subscribe (transaction sample_env releasing_work) shared_run))) =
        [Provide 5, Release 5 15]
   \<and> last (trace (snd (subscribe (transaction sample_env releasing_work) shared_run))) = Release 5 15"
proof -
  have a: "acquires sample_env shared_run 5 15"
    by (simp add: acquires_def obtainQueryRunnerProvider_def sample_defs)
  have f: "isReleased (heap (snd (subscribe (transaction sample_env releasing_work) shared_run)))"
    by (simp add: eval_defs)
  from provide_release_paired[OF a, of "''SELECT 1''" releasing_work] f show ?thesis by blast
qed

text \<open>
  A subscription that passes the released check but whose \<^verbatim>\<open>provide()\<close> rejects makes
  one \<^verbatim>\<open>provide()\<close> and no \<^verbatim>\<open>release()\<close>.
\<close>

theorem rejected_provide_unpaired:
  "\<not> (useSingleDatabaseConnection (heap per_call_run) \<and> isReleased (heap per_call_run))
   \<and> filter acquisition
        (calls_between per_call_run
           (snd (subscribe (query no_connection_env ''SELECT 1'') per_call_run))) = [Provide 0]
   \<and> filter acquisition
        (calls_between per_call_run
           (snd (subscribe (transaction no_connection_env persisting_work) per_call_run))) = [Provide 0]"
  by (simp add: eval_defs calls_between_def)

subsection \<open>C6\<close>



subsection \<open>C7\<close>

text \<open>
  Claim C7. Called with the one argument \<open>e\<close>, \<^verbatim>\<open>persist\<close> and \<^verbatim>\<open>remove\<close> resolve
  the repository from the runtime type of \<open>e\<close> (its constructor); called with the two
  arguments \<open>tag\<close> and \<open>e\<close>, they resolve it from \<open>tag\<close>, whatever the runtime type of \<open>e\<close>
  is. When the resolver yields the repository \<open>repo\<close>, the result is the stream that
  \<open>repo\<close> returns for the entity \<open>e\<close>, unchanged; when the resolver throws, its error is
  the result.
\<close>

theorem persist_remove_dispatch:
  "persist constructor_of getReactiveRepository [Val e] =
     (case getReactiveRepository (constructor_of e) of
        Inl err \<Rightarrow> Inl err
      | Inr repo \<Rightarrow> Inr (repo_persist repo (Val e)))
   \<and> remove_entity constructor_of getReactiveRepository [Val e] =
     (case getReactiveRepository (constructor_of e) of
        Inl err \<Rightarrow> Inl err
      | Inr repo \<Rightarrow> Inr (repo_remove repo (Val e)))
   \<and> persist constructor_of getReactiveRepository [tag, Val e] =
     (case getReactiveRepository tag of
        Inl err \<Rightarrow> Inl err
      | Inr repo \<Rightarrow> Inr (repo_persist repo (Val e)))
   \<and> remove_entity constructor_of getReactiveRepository [tag, Val e] =
     (case getReactiveRepository tag of
        Inl err \<Rightarrow> Inl err
      | Inr repo \<Rightarrow> Inr (repo_remove repo (Val e)))"
  by (simp add: persist_def remove_entity_def parameter_def get_constructor_def on_repository_def)

text \<open>
  The statement at a sample entity: \<open>205\<close> has runtime type \<open>2\<close>; with the tag \<open>7\<close> the
  repository of \<open>7\<close> is used, and \<open>205\<close> is what each repository receives.
\<close>

theorem persist_remove_dispatch_witness:
  "persist sample_constructor sample_resolver [Val 205] = Inr (''persist'', 2, [Val 205])
   \<and> remove_entity sample_constructor sample_resolver [Val 205] = Inr (''remove'', 2, [Val 205])
   \<and> persist sample_constructor sample_resolver [Val 7, Val 205] = Inr (''persist'', 7, [Val 205])
   \<and> remove_entity sample_constructor sample_resolver [Val 7, Val 205] = Inr (''remove'', 7, [Val 205])"
  using persist_remove_dispatch[of sample_constructor sample_resolver 205 "Val 7"]
  by (simp add: sample_dispatch_defs)

subsection \<open>C8\<close>

text \<open>
  Claim C8, as amended. \<^verbatim>\<open>find\<close>, \<^verbatim>\<open>findAndCount\<close> and \<^verbatim>\<open>findOne\<close> test
  the truthiness of their optional arguments, the first before the second: with both
  truthy, both are forwarded unmodified; with the first truthy and the second absent, the
  first alone is forwarded; with the first absent the zero-argument variant is called,
  whatever the second argument \<open>x\<close> is.
\<close>

theorem find_dispatch:
  assumes "is_truthy truthy c" and "is_truthy truthy opts" and "\<not> is_truthy truthy absent"
  shows "find_entities truthy g cls c opts = on_repository g cls (\<lambda>repo. repo_find repo [c, opts])
       \<and> find_entities truthy g cls c absent = on_repository g cls (\<lambda>repo. repo_find repo [c])
       \<and> find_entities truthy g cls absent x = on_repository g cls (\<lambda>repo. repo_find repo [])
       \<and> findAndCount truthy g cls c opts = on_repository g cls (\<lambda>repo. repo_findAndCount repo [c, opts])
       \<and> findAndCount truthy g cls c absent = on_repository g cls (\<lambda>repo. repo_findAndCount repo [c])
       \<and> findAndCount truthy g cls absent x = on_repository g cls (\<lambda>repo. repo_findAndCount repo [])
       \<and> findOne truthy g cls c opts = on_repository g cls (\<lambda>repo. repo_findOne repo [c, opts])
       \<and> findOne truthy g cls c absent = on_repository g cls (\<lambda>repo. repo_findOne repo [c])
       \<and> findOne truthy g cls absent x = on_repository g cls (\<lambda>repo. repo_findOne repo [])"
  using assms by (simp add: find_entities_def findAndCount_def findOne_def)

text \<open>The statement at a sample run.\<close>

theorem find_dispatch_witness:
  "find_entities sample_truthy sample_resolver (Val 1) (Val 2) (Val 3) = Inr (''find'', 1, [Val 2, Val 3])
   \<and> find_entities sample_truthy sample_resolver (Val 1) (Val 2) Undefined = Inr (''find'', 1, [Val 2])
   \<and> find_entities sample_truthy sample_resolver (Val 1) Undefined Undefined = Inr (''find'', 1, [])
   \<and> findOne sample_truthy sample_resolver (Val 1) (Val 2) (Val 3) = Inr (''findOne'', 1, [Val 2, Val 3])"
proof -
  have h1: "is_truthy sample_truthy (Val 2)" by (simp add: is_truthy_def sample_truthy_def)
  have h2: "is_truthy sample_truthy (Val 3)" by (simp add: is_truthy_def sample_truthy_def)
  have h3: "\<not> is_truthy sample_truthy Undefined" by (simp add: is_truthy_def)
  from find_dispatch[OF h1 h2 h3, of sample_resolver "Val 1" Undefined]
  show ?thesis by (simp add: on_repository_def sample_resolver_def sample_repository_def)
qed

text \<open>
  With the conditions absent and the options present, the options are not forwarded: the
  zero-argument variant is called.
\<close>

theorem lone_options_not_forwarded:
  "is_truthy sample_truthy (Val 3)
   \<and> find_entities sample_truthy sample_resolver (Val 1) Undefined (Val 3) = Inr (''find'', 1, [])
   \<and> findAndCount sample_truthy sample_resolver (Val 1) Undefined (Val 3) = Inr (''findAndCount'', 1, [])
   \<and> findOne sample_truthy sample_resolver (Val 1) Undefined (Val 3) = Inr (''findOne'', 1, [])"
  by (simp add: dispatch_defs sample_dispatch_defs)

subsection \<open>C9\<close>

text \<open>
  Claim C9, as amended. \<^verbatim>\<open>query\<close> and \<^verbatim>\<open>transaction\<close> choose the provider by
  the \<^verbatim>\<open>queryRunnerProvider\<close> field alone, not by \<^verbatim>\<open>useSingleDatabaseConnection\<close>.
  In a subscription that passes the released check: when the field is set, that provider
  is used and none is constructed; when it is unset, one provider is constructed at a
  fresh address from the connection's driver and used for this call. Neither thunk assigns
  the field: when the collaborators leave it alone it is the same after the call, so an
  unset field stays unset and the next call constructs another provider.
\<close>

theorem provider_selection:
  assumes "env_keeps_provider env" and "keeps_provider fn"
      and "\<not> (useSingleDatabaseConnection (heap s) \<and> isReleased (heap s))"
  shows "provider_use s (snd (subscribe (query env q) s))
       \<and> queryRunnerProvider (heap (snd (subscribe (query env q) s))) = queryRunnerProvider (heap s)
       \<and> provider_use s (snd (subscribe (transaction env fn) s))
       \<and> queryRunnerProvider (heap (snd (subscribe (transaction env fn) s))) = queryRunnerProvider (heap s)"
  using query_provider_use[OF assms(3), of env q] transaction_provider_use[OF assms(3), of env fn]
    query_keeps_field[OF assms(1), of q s] transaction_keeps_field[OF assms(1,2), of s]
  by (simp add: subscribe_query subscribe_transaction)

text \<open>The statement at a sample run.\<close>

theorem provider_selection_witness:
  "take 1 (calls_between shared_run (snd (subscribe (query sample_env ''SELECT 1'') shared_run))) = [Provide 5]
   \<and> filter creation (calls_between shared_run (snd (subscribe (query sample_env ''SELECT 1'') shared_run))) = []
   \<and> queryRunnerProvider (heap (snd (subscribe (query sample_env ''SELECT 1'') shared_run))) = Some 5
   \<and> take 2 (calls_between per_call_run (snd (subscribe (transaction sample_env persisting_work) per_call_run))) =
       [NewQueryRunnerProvider 0 ''mysql'', Provide 0]
   \<and> queryRunnerProvider (heap (snd (subscribe (transaction sample_env persisting_work) per_call_run))) = None"
proof -
  have g1: "\<not> (useSingleDatabaseConnection (heap shared_run) \<and> isReleased (heap shared_run))"
    by (simp add: sample_defs)
  have g2: "\<not> (useSingleDatabaseConnection (heap per_call_run) \<and> isReleased (heap per_call_run))"
    by (simp add: sample_defs)
  have f1: "queryRunnerProvider (heap shared_run) = Some 5" by (simp add: sample_defs)
  have f2: "queryRunnerProvider (heap per_call_run) = None" by (simp add: sample_defs)
  have a2: "allocated per_call_run = 0" "connection_driver (heap per_call_run) = ''mysql''"
    by (simp_all add: sample_defs)
  from provider_selection[OF sample_env_keeps_provider persisting_work_keeps_provider g1, of "''SELECT 1''"]
    provider_selection[OF sample_env_keeps_provider persisting_work_keeps_provider g2, of "''SELECT 1''"]
    f1 f2 a2
  show ?thesis by (simp add: provider_use_def)
qed

text \<open>
  On a manager in single-connection mode whose field is unset, two successive queries
  construct two providers, at addresses \<open>0\<close> and \<open>1\<close>, and the field stays unset.
\<close>

theorem single_mode_constructs_provider_per_call:
  "useSingleDatabaseConnection (heap single_unset_run)
   \<and> queryRunnerProvider (heap single_unset_run) = None
   \<and> queryRunnerProvider (heap (snd (subscribe (query sample_env ''SELECT 1'') single_unset_run))) = None
   \<and> trace (snd (subscribe (query sample_env ''SELECT 1'')
              (snd (subscribe (query sample_env ''SELECT 1'') single_unset_run)))) =
       [NewQueryRunnerProvider 0 ''mysql'', Provide 0, RunQuery 10 ''SELECT 1'', Release 0 10,
        NewQueryRunnerProvider 1 ''mysql'', Provide 1, RunQuery 11 ''SELECT 1'', Release 1 11]"
  by (simp add: eval_defs)

subsection \<open>C10\<close>

text \<open>
  Claim C10. In a subscription to \<^verbatim>\<open>query\<close> or \<^verbatim>\<open>transaction\<close> in which
  \<^verbatim>\<open>provide()\<close> rejects with \<open>e\<close>, the only call made is that \<^verbatim>\<open>provide()\<close>: no
  \<^verbatim>\<open>release()\<close> and no transaction call follows. The heap is left exactly as
  \<^verbatim>\<open>provide()\<close> left it (\<open>h1\<close>), the manager assigning none of its fields, and the
  stream fails with \<open>e\<close>, unmodified.
\<close>

theorem rejected_provide_not_released:
  assumes "\<not> (useSingleDatabaseConnection (heap s) \<and> isReleased (heap s))"
      and "obtainQueryRunnerProvider s = (p, t)"
      and "provide_impl env p (heap t) = (Inl e, h1)"
  shows "subscribe (query env q) s = ([OnError e], t\<lparr>heap := h1, trace := trace t @ [Provide p]\<rparr>)
       \<and> subscribe (transaction env fn) s = ([OnError e], t\<lparr>heap := h1, trace := trace t @ [Provide p]\<rparr>)"
  using query_rejected_provide[OF assms, of q] transaction_rejected_provide[OF assms, of fn]
  by (simp add: subscribe_query subscribe_transaction settle_def)

text \<open>The statement at a sample run.\<close>

theorem rejected_provide_not_released_witness:
  "subscribe (query no_connection_env ''SELECT 1'') shared_run =
     ([OnError (Thrown ''no connection'')], shared_run\<lparr>trace := [Provide 5]\<rparr>)
   \<and> subscribe (transaction no_connection_env persisting_work) shared_run =
     ([OnError (Thrown ''no connection'')], shared_run\<lparr>trace := [Provide 5]\<rparr>)"
proof -
  have h1: "\<not> (useSingleDatabaseConnection (heap shared_run) \<and> isReleased (heap shared_run))"
    by (simp add: sample_defs)
  have h2: "obtainQueryRunnerProvider shared_run = (5, shared_run)"
    by (simp add: obtainQueryRunnerProvider_def sample_defs)
  have h3: "provide_impl no_connection_env 5 (heap shared_run) =
              (Inl (Thrown ''no connection''), heap shared_run)"
    by (simp add: sample_defs)
  have t: "trace shared_run = []" by (simp add: sample_defs)
  from rejected_provide_not_released[OF h1 h2 h3, of "''SELECT 1''" persisting_work] t
  show ?thesis by simp
qed

end
